theory Spec2Isabelle
  imports Complex_Main "HOL-Library.AList"
begin

section \<open>HydraFlow-X standalone dashboard: state, update generator, broadcast\<close>

text \<open>
  A shallow embedding of \<^verbatim>\<open>HydraFlowDashboard\<close> in
  \<^verbatim>\<open>standalone_dashboard.py\<close>. Python values are a datatype; a dict is an
  association list in insertion order (the order \<^verbatim>\<open>json.dumps\<close> walks); a
  float is an ideal real number, so every statement about a float below is a statement
  about the exact value, before binary rounding. A websocket object is identified by a
  number.
\<close>

subsection \<open>Python values and errors\<close>

datatype pyval =
    PyInt int
  | PyFloat real
  | PyStr string
  | PyList "pyval list"
  | PyDict "(string \<times> pyval) list"

datatype error = KeyError | TypeError | IndexError | ConnectionClosed

type_synonym pydict = "(string \<times> pyval) list"

type_synonym websocket = nat

text \<open>\<^verbatim>\<open>d[k]\<close>: the value stored under the key, KeyError when the key is missing.\<close>

definition dict_get :: "pydict \<Rightarrow> string \<Rightarrow> error + pyval" where
  "dict_get d k = (case map_of d k of None \<Rightarrow> Inl KeyError | Some v \<Rightarrow> Inr v)"

text \<open>\<^verbatim>\<open>d[k] = v\<close>: an existing key keeps its place, a new key goes last.\<close>

definition dict_set :: "pydict \<Rightarrow> string \<Rightarrow> pyval \<Rightarrow> pydict" where
  "dict_set d k v = AList.update k v d"

text \<open>
  \<^verbatim>\<open>a + b\<close> on the values the dashboard holds: int with int is an int, a float
  on either side gives a float, a number and a non-number is a TypeError. (Concatenation
  of strings and of lists does not occur on the paths modelled and is left out as
  TypeError.)
\<close>

fun py_add :: "pyval \<Rightarrow> pyval \<Rightarrow> error + pyval" where
  "py_add (PyInt a) (PyInt b) = Inr (PyInt (a + b))"
| "py_add (PyInt a) (PyFloat b) = Inr (PyFloat (of_int a + b))"
| "py_add (PyFloat a) (PyInt b) = Inr (PyFloat (a + of_int b))"
| "py_add (PyFloat a) (PyFloat b) = Inr (PyFloat (a + b))"
| "py_add _ _ = Inl TypeError"

text \<open>\<^verbatim>\<open>d[k] += x\<close>: read, add, store.\<close>

definition dict_iadd :: "pydict \<Rightarrow> string \<Rightarrow> pyval \<Rightarrow> error + pydict" where
  "dict_iadd d k x =
     (case dict_get d k of
        Inl e \<Rightarrow> Inl e
      | Inr v \<Rightarrow> (case py_add v x of Inl e \<Rightarrow> Inl e | Inr w \<Rightarrow> Inr (dict_set d k w)))"

text \<open>\<^verbatim>\<open>xs[-n:]\<close>: the last \<open>n\<close> elements, the whole list when it is shorter.\<close>

definition slice_last :: "nat \<Rightarrow> 'a list \<Rightarrow> 'a list" where
  "slice_last n xs = drop (length xs - n) xs"

subsection \<open>The dashboard object\<close>

record dashboard =
  clients :: "websocket set"
  running :: bool
  metrics :: pydict
  live_trades :: "pyval list"
  tokens :: "string list"

text \<open>\<^verbatim>\<open>HydraFlowDashboard.__init__\<close>.\<close>

definition init_dashboard :: dashboard where
  "init_dashboard =
     \<lparr> clients = {},
       running = True,
       metrics =
         [ (''orders_executed'', PyInt 0),
           (''total_volume'', PyFloat 0),
           (''avg_latency_us'', PyFloat 0),
           (''success_rate'', PyFloat 99.8),
           (''active_strategies'', PyInt 12),
           (''ai_confidence'', PyFloat 0.85),
           (''risk_score'', PyFloat 0.15),
           (''memecoin_scanned'', PyInt 0),
           (''profits_usd'', PyFloat 0) ],
       live_trades = [],
       tokens = [''BTC'', ''ETH'', ''SOL'', ''PEPE'', ''SHIB'', ''DOGE'', ''BONK'', ''WIF'',
                 ''POPCAT'', ''MOODENG''] \<rparr>"

subsection \<open>Library calls: random, round, int, str, time\<close>

text \<open>
  The random module, as functions of the generator's raw output. \<^verbatim>\<open>random()\<close>
  returns a raw \<open>u\<close> with \<open>0 \<le> u < 1\<close>; \<^verbatim>\<open>uniform(a, b)\<close> is
  \<^verbatim>\<open>a + (b - a) * random()\<close>; \<^verbatim>\<open>randint(a, b)\<close> is
  \<^verbatim>\<open>a + _randbelow(b - a + 1)\<close> and \<^verbatim>\<open>choice(seq)\<close> is
  \<^verbatim>\<open>seq[_randbelow(len(seq))]\<close>, IndexError on an empty sequence, where
  \<^verbatim>\<open>_randbelow(n)\<close> returns a raw \<open>k < n\<close>. The bounds on the raw values are
  the predicate \<open>draws_ok\<close> below.
\<close>

definition uniform :: "real \<Rightarrow> real \<Rightarrow> real \<Rightarrow> real" where
  "uniform a b u = a + (b - a) * u"

definition randint :: "int \<Rightarrow> int \<Rightarrow> nat \<Rightarrow> int" where
  "randint a b k = a + int k"

definition choice :: "'a list \<Rightarrow> nat \<Rightarrow> error + 'a" where
  "choice seq k = (if seq = [] then Inl IndexError else Inr (seq ! k))"

text \<open>
  \<^verbatim>\<open>round(x, n)\<close> on a float: the multiple of \<open>10\<^sup>-\<^sup>n\<close> nearest to
  \<open>x\<close>, a tie going to the even multiple.
\<close>

definition round_half_even :: "real \<Rightarrow> int" where
  "round_half_even x =
     (let f = \<lfloor>x\<rfloor>; d = x - of_int f
      in if d < 1 / 2 then f else if 1 / 2 < d then f + 1 else if even f then f else f + 1)"

definition py_round :: "real \<Rightarrow> nat \<Rightarrow> real" where
  "py_round x n = of_int (round_half_even (x * 10 ^ n)) / 10 ^ n"

text \<open>\<^verbatim>\<open>int(x)\<close> on a float truncates towards zero.\<close>

definition py_int :: "real \<Rightarrow> int" where
  "py_int x = (if 0 \<le> x then \<lfloor>x\<rfloor> else \<lceil>x\<rceil>)"

text \<open>\<^verbatim>\<open>str(i)\<close> on an int: its decimal digits, with a sign when negative.\<close>

definition digit_char :: "nat \<Rightarrow> char" where
  "digit_char d = ''0123456789'' ! d"

fun str_nat :: "nat \<Rightarrow> string" where
  "str_nat n = (if n < 10 then [digit_char n] else str_nat (n div 10) @ [digit_char (n mod 10)])"

declare str_nat.simps [simp del]

definition py_str :: "int \<Rightarrow> string" where
  "py_str i = (if i < 0 then CHR ''-'' # str_nat (nat (- i)) else str_nat (nat i))"

text \<open>
  What one pass of the broadcast loop reads from outside the object: the raw random
  values, one per call site of \<^verbatim>\<open>generate_live_data\<close>, the clock readings, and
  which websockets raise on \<^verbatim>\<open>send\<close>.
\<close>

record tick_env =
  k_orders :: nat
  u_volume :: real
  u_latency :: real
  u_confidence :: real
  u_risk :: real
  k_scanned :: nat
  u_profit :: real
  u_trade :: real
  k_token :: nat
  k_side :: nat
  u_amount :: real
  u_price :: real
  u_trade_latency :: real
  k_source :: nat
  k_exchange :: nat
  time_time :: real
  trade_now :: string
  data_now :: string
  send_raises :: "websocket \<Rightarrow> bool"

definition unit_draw :: "real \<Rightarrow> bool" where
  "unit_draw u = (0 \<le> u \<and> u < 1)"

text \<open>
  The random module's contract at each call site: \<open>k_orders\<close> is
  \<^verbatim>\<open>_randbelow(5)\<close> of \<^verbatim>\<open>randint(1, 5)\<close>, \<open>k_scanned\<close> is
  \<^verbatim>\<open>_randbelow(4)\<close> of \<^verbatim>\<open>randint(0, 3)\<close>, and the four
  \<^verbatim>\<open>choice\<close> calls draw below the lengths 10, 2, 4 and 4 of their sequences.
\<close>

definition draws_ok :: "tick_env \<Rightarrow> bool" where
  "draws_ok e =
     (k_orders e < 5 \<and> unit_draw (u_volume e) \<and> unit_draw (u_latency e) \<and>
      unit_draw (u_confidence e) \<and> unit_draw (u_risk e) \<and> k_scanned e < 4 \<and>
      unit_draw (u_profit e) \<and> unit_draw (u_trade e) \<and> k_token e < 10 \<and> k_side e < 2 \<and>
      unit_draw (u_amount e) \<and> unit_draw (u_price e) \<and> unit_draw (u_trade_latency e) \<and>
      k_source e < 4 \<and> k_exchange e < 4)"

subsection \<open>The update generator\<close>

text \<open>The trade dict built inside \<^verbatim>\<open>generate_live_data\<close>.\<close>

definition new_trade :: "dashboard \<Rightarrow> tick_env \<Rightarrow> error + pyval" where
  "new_trade s e =
     (case choice (tokens s) (k_token e) of
        Inl x \<Rightarrow> Inl x
      | Inr token \<Rightarrow>
     (case choice [''BUY'', ''SELL''] (k_side e) of
        Inl x \<Rightarrow> Inl x
      | Inr side \<Rightarrow>
     (let amount = uniform 1000 25000 (u_amount e);
          price = uniform 0.001 100000 (u_price e);
          latency = uniform 45 200 (u_trade_latency e)
      in
     (case choice [''AI_SIGNAL'', ''ARBITRAGE'', ''MOMENTUM'', ''SENTIMENT''] (k_source e) of
        Inl x \<Rightarrow> Inl x
      | Inr source \<Rightarrow>
     (case choice [''RAYDIUM'', ''ORCA'', ''JUPITER'', ''UNISWAP''] (k_exchange e) of
        Inl x \<Rightarrow> Inl x
      | Inr exchange \<Rightarrow>
          Inr (PyDict
            [ (''id'', PyStr (CHR ''T'' # py_str (py_int (time_time e * 1000)))),
              (''timestamp'', PyStr (trade_now e)),
              (''token'', PyStr token),
              (''side'', PyStr side),
              (''amount_usd'', PyFloat (py_round amount 2)),
              (''price'', PyFloat (py_round price 6)),
              (''latency_us'', PyFloat (py_round latency 1)),
              (''status'', PyStr ''EXECUTED''),
              (''source'', PyStr source),
              (''exchange'', PyStr exchange) ]))))))"

text \<open>
  \<^verbatim>\<open>self.live_trades.append(trade)\<close>, then the cut to the last 100 when the
  list has grown past 100.
\<close>

definition append_trade :: "pyval list \<Rightarrow> pyval \<Rightarrow> pyval list" where
  "append_trade h t = (let h' = h @ [t] in if 100 < length h' then slice_last 100 h' else h')"

text \<open>
  \<^verbatim>\<open>generate_live_data\<close>. The object is mutated in place; an exception part of
  the way is the result \<open>Inl\<close>, without the partly updated object.
\<close>

definition generate_live_data :: "dashboard \<Rightarrow> tick_env \<Rightarrow> error + dashboard" where
  "generate_live_data s e =
     (case dict_iadd (metrics s) ''orders_executed'' (PyInt (randint 1 5 (k_orders e))) of
        Inl x \<Rightarrow> Inl x
      | Inr m1 \<Rightarrow>
     (case dict_iadd m1 ''total_volume'' (PyFloat (uniform 1000 50000 (u_volume e))) of
        Inl x \<Rightarrow> Inl x
      | Inr m2 \<Rightarrow>
     (let m3 = dict_set m2 ''avg_latency_us'' (PyFloat (uniform 50 150 (u_latency e)));
          m4 = dict_set m3 ''ai_confidence'' (PyFloat (0.75 + uniform 0 0.25 (u_confidence e)));
          m5 = dict_set m4 ''risk_score'' (PyFloat (uniform 0.05 0.25 (u_risk e)))
      in
     (case dict_iadd m5 ''memecoin_scanned'' (PyInt (randint 0 3 (k_scanned e))) of
        Inl x \<Rightarrow> Inl x
      | Inr m6 \<Rightarrow>
     (case dict_iadd m6 ''profits_usd'' (PyFloat (uniform (- 100) 500 (u_profit e))) of
        Inl x \<Rightarrow> Inl x
      | Inr m7 \<Rightarrow>
          if 0.7 < u_trade e then
            (case new_trade s e of
               Inl x \<Rightarrow> Inl x
             | Inr trade \<Rightarrow>
                 Inr (s\<lparr>metrics := m7, live_trades := append_trade (live_trades s) trade\<rparr>))
          else Inr (s\<lparr>metrics := m7\<rparr>))))))"

subsection \<open>The connection registry\<close>

text \<open>
  \<^verbatim>\<open>register_client\<close> runs in two parts, around
  \<^verbatim>\<open>await websocket.wait_closed()\<close>: the add when the connection opens, and
  the \<^verbatim>\<open>finally\<close> block when it has closed. \<^verbatim>\<open>set.remove\<close> raises
  KeyError for an element that is not in the set, and leaves the set as it was.
\<close>

definition register_client_enter :: "dashboard \<Rightarrow> websocket \<Rightarrow> dashboard" where
  "register_client_enter s ws = s\<lparr>clients := insert ws (clients s)\<rparr>"

definition set_remove :: "'a set \<Rightarrow> 'a \<Rightarrow> error + 'a set" where
  "set_remove A x = (if x \<in> A then Inr (A - {x}) else Inl KeyError)"

definition register_client_exit :: "dashboard \<Rightarrow> websocket \<Rightarrow> dashboard \<times> error option" where
  "register_client_exit s ws =
     (case set_remove (clients s) ws of
        Inl x \<Rightarrow> (s, Some x)
      | Inr cs \<Rightarrow> (s\<lparr>clients := cs\<rparr>, None))"

subsection \<open>The broadcast loop\<close>

text \<open>The dict \<^verbatim>\<open>data\<close> of \<^verbatim>\<open>broadcast_data\<close>.\<close>

definition build_data :: "dashboard \<Rightarrow> tick_env \<Rightarrow> pyval" where
  "build_data s e =
     PyDict
       [ (''type'', PyStr ''update''),
         (''timestamp'', PyStr (data_now e)),
         (''metrics'', PyDict (metrics s)),
         (''live_trades'', PyList (slice_last 10 (live_trades s))),
         (''system_status'', PyDict
            [ (''core_engine'', PyStr ''ONLINE''),
              (''ai_system'', PyStr ''PROCESSING''),
              (''execution_engine'', PyStr ''ULTRA_FAST''),
              (''risk_manager'', PyStr ''PROTECTED''),
              (''network'', PyStr ''OPTIMAL'') ]) ]"

text \<open>
  What one pass of the loop does to the outside: how many times
  \<^verbatim>\<open>json.dumps\<close> ran, the \<^verbatim>\<open>send\<close> calls made (websocket and
  message; the message is the value tree handed to \<^verbatim>\<open>json.dumps\<close>, the wire
  text is not modelled), and what \<^verbatim>\<open>asyncio.gather\<close> returned for each
  websocket: \<open>None\<close> for a send that went through, the exception for one that raised.
\<close>

record broadcast_out =
  dumps_calls :: nat
  sent :: "(websocket \<times> pyval) set"
  outcomes :: "(websocket \<times> error option) set"

definition no_output :: broadcast_out where
  "no_output = \<lparr> dumps_calls = 0, sent = {}, outcomes = {} \<rparr>"

text \<open>
  \<^verbatim>\<open>asyncio.gather(*calls, return_exceptions=flag)\<close> over the send calls:
  every call is run; with the flag an exception is a result like any other, without it
  the exception of a failed call is raised to the awaiting caller.
\<close>

definition gather ::
  "bool \<Rightarrow> (websocket \<times> pyval) set \<Rightarrow> (websocket \<Rightarrow> bool) \<Rightarrow> error + (websocket \<times> error option) set"
where
  "gather return_exceptions calls raises =
     (if \<not> return_exceptions \<and> (\<exists>c \<in> fst ` calls. raises c) then Inl ConnectionClosed
      else Inr ((\<lambda>c. (c, if raises c then Some ConnectionClosed else None)) ` fst ` calls))"

text \<open>
  The body of the \<^verbatim>\<open>while self.running\<close> loop of
  \<^verbatim>\<open>broadcast_data\<close>, up to the sleep: one tick.
\<close>

definition broadcast_iteration :: "dashboard \<Rightarrow> tick_env \<Rightarrow> error + dashboard \<times> broadcast_out" where
  "broadcast_iteration s e =
     (if clients s \<noteq> {} then
        (case generate_live_data s e of
           Inl x \<Rightarrow> Inl x
         | Inr s1 \<Rightarrow>
             (let data = build_data s1 e in
              if clients s1 \<noteq> {} then
                (let calls = (\<lambda>client. (client, data)) ` clients s1 in
                 case gather True calls (send_raises e) of
                   Inl x \<Rightarrow> Inl x
                 | Inr results \<Rightarrow>
                     Inr (s1, \<lparr> dumps_calls = card (clients s1), sent = calls,
                                outcomes = results \<rparr>))
              else Inr (s1, no_output)))
      else Inr (s, no_output))"

text \<open>
  The event loop interleaves three kinds of step: a connection opens
  (\<^verbatim>\<open>register_client\<close> up to its await), a connection has closed (its
  \<^verbatim>\<open>finally\<close> block; a KeyError there ends that handler only), and one pass of
  the broadcast loop, taken while \<^verbatim>\<open>self.running\<close> holds. The loop body has
  no await before the gather, so a pass is one step.
\<close>

datatype event = Connect websocket | Closed websocket | Tick tick_env

fun step :: "dashboard \<Rightarrow> event \<Rightarrow> error + dashboard" where
  "step s (Connect ws) = Inr (register_client_enter s ws)"
| "step s (Closed ws) = Inr (fst (register_client_exit s ws))"
| "step s (Tick e) =
     (if running s then
        (case broadcast_iteration s e of Inl x \<Rightarrow> Inl x | Inr (s', out) \<Rightarrow> Inr s')
      else Inr s)"

fun run :: "dashboard \<Rightarrow> event list \<Rightarrow> error + dashboard" where
  "run s [] = Inr s"
| "run s (ev # evs) = (case step s ev of Inl x \<Rightarrow> Inl x | Inr s' \<Rightarrow> run s' evs)"

fun ticks :: "event list \<Rightarrow> tick_env list" where
  "ticks [] = []"
| "ticks (Tick e # evs) = e # ticks evs"
| "ticks (_ # evs) = ticks evs"

subsection \<open>The pass as it returns\<close>

text \<open>
  \<^verbatim>\<open>broadcast_data\<close> is suspended at \<^verbatim>\<open>await asyncio.gather\<close>
  until every send has finished. While it is suspended the event loop also resumes each
  \<^verbatim>\<open>register_client\<close> handler whose \<^verbatim>\<open>wait_closed\<close> has returned,
  and the resumed handler runs its \<^verbatim>\<open>finally\<close> block. A websocket has a
  waiting handler exactly while it is in \<^verbatim>\<open>self.clients\<close>. The list
  \<open>lost\<close> names the websockets whose connection has closed by then, in the order
  in which their handlers are resumed; the pass returns with the object those handlers
  have left. A pass that finds no subscriber awaits no gather, and a pass during which
  no handler is resumed is \<open>broadcast_iteration\<close>.
\<close>

definition resume_handler :: "dashboard \<Rightarrow> websocket \<Rightarrow> dashboard" where
  "resume_handler s ws = (if ws \<in> clients s then fst (register_client_exit s ws) else s)"

definition broadcast_pass ::
  "dashboard \<Rightarrow> tick_env \<Rightarrow> websocket list \<Rightarrow> error + dashboard \<times> broadcast_out"
where
  "broadcast_pass s e lost =
     (if clients s \<noteq> {} then
        (case generate_live_data s e of
           Inl x \<Rightarrow> Inl x
         | Inr s1 \<Rightarrow>
             (let data = build_data s1 e in
              if clients s1 \<noteq> {} then
                (let calls = (\<lambda>client. (client, data)) ` clients s1 in
                 case gather True calls (send_raises e) of
                   Inl x \<Rightarrow> Inl x
                 | Inr results \<Rightarrow>
                     Inr (foldl resume_handler s1 lost,
                          \<lparr> dumps_calls = card (clients s1), sent = calls,
                            outcomes = results \<rparr>))
              else Inr (s1, no_output)))
      else Inr (s, no_output))"





subsection \<open>Predicates on the state\<close>

text \<open>The float stored under a key lies in a closed interval.\<close>

definition float_between :: "pydict \<Rightarrow> string \<Rightarrow> real \<Rightarrow> real \<Rightarrow> bool" where
  "float_between d k lo hi =
     (case dict_get d k of Inr (PyFloat x) \<Rightarrow> lo \<le> x \<and> x \<le> hi | _ \<Rightarrow> False)"

text \<open>
  The metrics dict has the nine keys of \<^verbatim>\<open>__init__\<close>, in that order, each with
  a value of the type it was given there.
\<close>

definition metrics_shape :: "pydict \<Rightarrow> bool" where
  "metrics_shape m =
     (\<exists>oe tv al sr acs cf rs ms pu.
        m = [ (''orders_executed'', PyInt oe), (''total_volume'', PyFloat tv),
              (''avg_latency_us'', PyFloat al), (''success_rate'', PyFloat sr),
              (''active_strategies'', PyInt acs), (''ai_confidence'', PyFloat cf),
              (''risk_score'', PyFloat rs), (''memecoin_scanned'', PyInt ms),
              (''profits_usd'', PyFloat pu) ])"

definition shape :: "dashboard \<Rightarrow> bool" where
  "shape s = (metrics_shape (metrics s) \<and> tokens s = tokens init_dashboard)"

subsection \<open>Sample inputs\<close>

text \<open>
  Two passes of the loop: one whose draw for the trade is above 0.7 and in which the send
  to websocket 2 raises, and one with no trade and no failing send.
\<close>

definition env_trade :: tick_env where
  "env_trade =
     \<lparr> k_orders = 2, u_volume = 0.5, u_latency = 0.25, u_confidence = 0.5, u_risk = 0.5,
       k_scanned = 3, u_profit = 0.1, u_trade = 0.9, k_token = 3, k_side = 1,
       u_amount = 0.123456, u_price = 0.5, u_trade_latency = 0.3, k_source = 2,
       k_exchange = 0, time_time = 1700000000.1234,
       trade_now = ''2023-11-14T22:13:20.123400'', data_now = ''2023-11-14T22:13:20.123500'',
       send_raises = (\<lambda>ws. ws = 2) \<rparr>"

definition env_quiet :: tick_env where
  "env_quiet =
     \<lparr> k_orders = 0, u_volume = 0, u_latency = 0.5, u_confidence = 0, u_risk = 0.75,
       k_scanned = 0, u_profit = 0.5, u_trade = 0.5, k_token = 0, k_side = 0,
       u_amount = 0, u_price = 0, u_trade_latency = 0, k_source = 0,
       k_exchange = 0, time_time = 1700000000.2234,
       trade_now = ''2023-11-14T22:13:20.223400'', data_now = ''2023-11-14T22:13:20.223500'',
       send_raises = (\<lambda>ws. False) \<rparr>"

text \<open>The state after one, and after two, connections have opened.\<close>

definition one_client :: dashboard where
  "one_client = register_client_enter init_dashboard 1"

definition two_clients :: dashboard where
  "two_clients = register_client_enter (register_client_enter init_dashboard 1) 2"

section \<open>Properties\<close>

subsection \<open>Library facts\<close>

lemma length_slice_last: "length (slice_last n xs) = min n (length xs)"
  by (simp add: slice_last_def)

lemma uniform_bounds:
  assumes "a \<le> b" and "unit_draw u"
  shows "a \<le> uniform a b u \<and> uniform a b u \<le> b"
proof -
  from assms have u: "0 \<le> u" "u \<le> 1" by (simp_all add: unit_draw_def)
  from assms(1) have d: "0 \<le> b - a" by simp
  have lo: "0 \<le> (b - a) * u" using d u(1) by (rule mult_nonneg_nonneg)
  have "(b - a) * u \<le> (b - a) * 1" using u(2) d by (rule mult_left_mono)
  then have hi: "(b - a) * u \<le> b - a" by simp
  from lo hi show ?thesis by (simp add: uniform_def)
qed

lemma uniform_bij:
  assumes "a < b"
  shows "bij_betw (uniform a b) {0..<1} {a..<b}"
proof (rule bij_betw_byWitness [where f' = "\<lambda>x. (x - a) / (b - a)"])
  from assms have p: "0 < b - a" by simp
  show "\<forall>u \<in> {0..<1}. (uniform a b u - a) / (b - a) = u"
    using p by (simp add: uniform_def)
  show "\<forall>x \<in> {a..<b}. uniform a b ((x - a) / (b - a)) = x"
    using p by (simp add: uniform_def)
  show "uniform a b ` {0..<1} \<subseteq> {a..<b}"
  proof
    fix x assume "x \<in> uniform a b ` {0..<1}"
    then obtain u where u: "0 \<le> u" "u < 1" and x: "x = a + (b - a) * u"
      by (auto simp: uniform_def)
    from p u(1) have "0 \<le> (b - a) * u" by simp
    moreover from p u(2) have "(b - a) * u < (b - a) * 1"
      by (intro mult_strict_left_mono) simp_all
    ultimately show "x \<in> {a..<b}" using x by simp
  qed
  show "(\<lambda>x. (x - a) / (b - a)) ` {a..<b} \<subseteq> {0..<1}"
    using p by (auto simp: divide_simps)
qed

lemma randint_bij:
  assumes "a \<le> b"
  shows "bij_betw (randint a b) {..<nat (b - a + 1)} {a..b}"
proof (rule bij_betw_byWitness [where f' = "\<lambda>i. nat (i - a)"])
  show "\<forall>k \<in> {..<nat (b - a + 1)}. nat (randint a b k - a) = k"
    by (simp add: randint_def)
  show "\<forall>i \<in> {a..b}. randint a b (nat (i - a)) = i"
    by (simp add: randint_def)
  show "randint a b ` {..<nat (b - a + 1)} \<subseteq> {a..b}"
    using assms by (auto simp: randint_def)
  show "(\<lambda>i. nat (i - a)) ` {a..b} \<subseteq> {..<nat (b - a + 1)}"
    using assms by auto
qed

lemma choice_in_range:
  assumes "k < length xs"
  shows "xs ! k \<in> set xs"
  using assms by simp

lemma round_half_even_close: "\<bar>of_int (round_half_even y) - y\<bar> \<le> 1 / 2"
proof -
  define f where "f = \<lfloor>y\<rfloor>"
  define d where "d = y - of_int f"
  have d: "0 \<le> d" "d < 1" unfolding d_def f_def by linarith+
  have y: "y = of_int f + d" by (simp add: d_def)
  have r: "round_half_even y =
      (if d < 1 / 2 then f else if 1 / 2 < d then f + 1 else if even f then f else f + 1)"
    unfolding round_half_even_def Let_def d_def f_def by (rule refl)
  consider "d < 1 / 2" | "1 / 2 < d" | "d = 1 / 2" by linarith
  then show ?thesis
  proof cases
    case 1
    with r have "round_half_even y = f" by simp
    with 1 d y show ?thesis by simp
  next
    case 2
    with r have "round_half_even y = f + 1" by simp
    with 2 d y show ?thesis by simp
  next
    case 3
    with r have "round_half_even y = f \<or> round_half_even y = f + 1" by simp
    with 3 y show ?thesis by auto
  qed
qed

lemma py_round_spec:
  "(\<exists>n::int. py_round x d = of_int n / 10 ^ d) \<and> \<bar>py_round x d - x\<bar> \<le> 1 / (2 * 10 ^ d)"
proof
  show "\<exists>n::int. py_round x d = of_int n / 10 ^ d"
    by (auto simp: py_round_def)
next
  have "py_round x d - x = (of_int (round_half_even (x * 10 ^ d)) - x * 10 ^ d) / 10 ^ d"
    by (simp add: py_round_def diff_divide_distrib)
  then have "\<bar>py_round x d - x\<bar> =
      \<bar>of_int (round_half_even (x * 10 ^ d)) - x * 10 ^ d\<bar> / 10 ^ d"
    by (simp add: abs_divide del: of_int_diff)
  also have "\<dots> \<le> (1 / 2) / 10 ^ d"
    by (intro divide_right_mono round_half_even_close) simp
  finally show "\<bar>py_round x d - x\<bar> \<le> 1 / (2 * 10 ^ d)" by simp
qed

lemma tokens_init:
  "tokens init_dashboard =
     [''BTC'', ''ETH'', ''SOL'', ''PEPE'', ''SHIB'', ''DOGE'', ''BONK'', ''WIF'', ''POPCAT'',
      ''MOODENG'']"
  by (simp add: init_dashboard_def)

subsection \<open>The bounded history\<close>

lemma length_append_trade: "length (append_trade h t) \<le> 100"
  by (simp add: append_trade_def Let_def length_slice_last)

lemma append_trade_below: "length h < 100 \<Longrightarrow> append_trade h t = h @ [t]"
  by (simp add: append_trade_def Let_def)

lemma append_trade_full: "length h = 100 \<Longrightarrow> append_trade h t = tl h @ [t]"
  by (cases h) (simp_all add: append_trade_def Let_def slice_last_def)

lemma length_foldl_append_trade:
  "length h \<le> 100 \<Longrightarrow> length (foldl append_trade h ts) \<le> 100"
  by (induction ts arbitrary: h) (simp_all add: length_append_trade)

subsection \<open>Symbolic execution and the shape invariant\<close>

text \<open>
  From a state whose metrics dict has the shape of \<^verbatim>\<open>__init__\<close>,
  \<^verbatim>\<open>generate_live_data\<close> raises nothing and its result can be written down.
  Every step of the event loop keeps the shape, so every reachable state has it.
\<close>

lemma new_trade_explicit:
  assumes "tokens s = tokens init_dashboard"
  shows "new_trade s e = Inr (PyDict
            [ (''id'', PyStr (CHR ''T'' # py_str (py_int (time_time e * 1000)))),
              (''timestamp'', PyStr (trade_now e)),
              (''token'', PyStr (tokens init_dashboard ! k_token e)),
              (''side'', PyStr ([''BUY'', ''SELL''] ! k_side e)),
              (''amount_usd'', PyFloat (py_round (uniform 1000 25000 (u_amount e)) 2)),
              (''price'', PyFloat (py_round (uniform 0.001 100000 (u_price e)) 6)),
              (''latency_us'', PyFloat (py_round (uniform 45 200 (u_trade_latency e)) 1)),
              (''status'', PyStr ''EXECUTED''),
              (''source'', PyStr ([''AI_SIGNAL'', ''ARBITRAGE'', ''MOMENTUM'', ''SENTIMENT''] ! k_source e)),
              (''exchange'', PyStr ([''RAYDIUM'', ''ORCA'', ''JUPITER'', ''UNISWAP''] ! k_exchange e)) ])"
  using assms by (simp add: new_trade_def choice_def init_dashboard_def)

lemma generate_live_data_explicit:
  assumes m: "metrics s =
            [ (''orders_executed'', PyInt oe), (''total_volume'', PyFloat tv),
              (''avg_latency_us'', PyFloat al), (''success_rate'', PyFloat sr),
              (''active_strategies'', PyInt acs), (''ai_confidence'', PyFloat cf),
              (''risk_score'', PyFloat rs), (''memecoin_scanned'', PyInt ms),
              (''profits_usd'', PyFloat pu) ]"
    and t: "tokens s = tokens init_dashboard"
  shows "generate_live_data s e =
     Inr (s\<lparr> metrics :=
            [ (''orders_executed'', PyInt (oe + randint 1 5 (k_orders e))),
              (''total_volume'', PyFloat (tv + uniform 1000 50000 (u_volume e))),
              (''avg_latency_us'', PyFloat (uniform 50 150 (u_latency e))),
              (''success_rate'', PyFloat sr),
              (''active_strategies'', PyInt acs),
              (''ai_confidence'', PyFloat (0.75 + uniform 0 0.25 (u_confidence e))),
              (''risk_score'', PyFloat (uniform 0.05 0.25 (u_risk e))),
              (''memecoin_scanned'', PyInt (ms + randint 0 3 (k_scanned e))),
              (''profits_usd'', PyFloat (pu + uniform (- 100) 500 (u_profit e))) ],
          live_trades :=
            (if 0.7 < u_trade e then
               append_trade (live_trades s)
                 (PyDict
                   [ (''id'', PyStr (CHR ''T'' # py_str (py_int (time_time e * 1000)))),
                     (''timestamp'', PyStr (trade_now e)),
                     (''token'', PyStr (tokens init_dashboard ! k_token e)),
                     (''side'', PyStr ([''BUY'', ''SELL''] ! k_side e)),
                     (''amount_usd'', PyFloat (py_round (uniform 1000 25000 (u_amount e)) 2)),
                     (''price'', PyFloat (py_round (uniform 0.001 100000 (u_price e)) 6)),
                     (''latency_us'', PyFloat (py_round (uniform 45 200 (u_trade_latency e)) 1)),
                     (''status'', PyStr ''EXECUTED''),
                     (''source'', PyStr ([''AI_SIGNAL'', ''ARBITRAGE'', ''MOMENTUM'', ''SENTIMENT''] ! k_source e)),
                     (''exchange'', PyStr ([''RAYDIUM'', ''ORCA'', ''JUPITER'', ''UNISWAP''] ! k_exchange e)) ])
             else live_trades s) \<rparr>)"
  by (simp add: generate_live_data_def m new_trade_explicit [OF t]
        dict_iadd_def dict_get_def dict_set_def)

lemma generate_live_data_shape:
  assumes "shape s"
  shows "\<exists>s'. generate_live_data s e = Inr s' \<and> shape s' \<and> clients s' = clients s \<and>
           running s' = running s"
proof -
  from assms obtain oe tv al sr acs cf rs ms pu where
    m: "metrics s =
            [ (''orders_executed'', PyInt oe), (''total_volume'', PyFloat tv),
              (''avg_latency_us'', PyFloat al), (''success_rate'', PyFloat sr),
              (''active_strategies'', PyInt acs), (''ai_confidence'', PyFloat cf),
              (''risk_score'', PyFloat rs), (''memecoin_scanned'', PyInt ms),
              (''profits_usd'', PyFloat pu) ]"
    and t: "tokens s = tokens init_dashboard"
    unfolding shape_def metrics_shape_def by blast
  show ?thesis
    unfolding generate_live_data_explicit [OF m t]
    by (simp add: shape_def metrics_shape_def t)
qed

lemma broadcast_iteration_shape:
  assumes "shape s"
  shows "\<exists>s' out. broadcast_iteration s e = Inr (s', out) \<and> shape s' \<and>
           clients s' = clients s \<and> running s' = running s"
proof (cases "clients s = {}")
  case True
  with assms show ?thesis by (simp add: broadcast_iteration_def)
next
  case False
  from generate_live_data_shape [OF assms, of e] obtain s1 where
    g: "generate_live_data s e = Inr s1" and s1: "shape s1" "clients s1 = clients s"
      "running s1 = running s"
    by blast
  from False g s1 show ?thesis
    by (simp add: broadcast_iteration_def gather_def Let_def)
qed

lemma broadcast_iteration_clients:
  assumes "shape s" and "clients s \<noteq> {}"
  shows "\<exists>s'. generate_live_data s e = Inr s' \<and> shape s' \<and> clients s' = clients s \<and>
    broadcast_iteration s e =
      Inr (s', \<lparr> dumps_calls = card (clients s),
                 sent = (\<lambda>ws. (ws, build_data s' e)) ` clients s,
                 outcomes = (\<lambda>ws. (ws, if send_raises e ws then Some ConnectionClosed else None))
                              ` clients s \<rparr>)"
proof -
  from generate_live_data_shape [OF assms(1), of e] obtain s1 where
    g: "generate_live_data s e = Inr s1" and s1: "shape s1" "clients s1 = clients s"
    by blast
  from assms(2) g s1 show ?thesis
    by (simp add: broadcast_iteration_def gather_def Let_def image_image)
qed

lemma broadcast_iteration_cases:
  assumes "broadcast_iteration s e = Inr (s', out)"
  shows "(clients s = {} \<and> s' = s) \<or> (clients s \<noteq> {} \<and> generate_live_data s e = Inr s')"
  using assms
  by (auto simp: broadcast_iteration_def gather_def Let_def split: if_splits sum.splits)

lemma shape_init: "shape init_dashboard"
proof -
  have "metrics init_dashboard =
     [ (''orders_executed'', PyInt 0), (''total_volume'', PyFloat 0),
       (''avg_latency_us'', PyFloat 0), (''success_rate'', PyFloat 99.8),
       (''active_strategies'', PyInt 12), (''ai_confidence'', PyFloat 0.85),
       (''risk_score'', PyFloat 0.15), (''memecoin_scanned'', PyInt 0),
       (''profits_usd'', PyFloat 0) ]"
    by (simp add: init_dashboard_def)
  then have "metrics_shape (metrics init_dashboard)"
    unfolding metrics_shape_def by blast
  then show ?thesis by (simp add: shape_def)
qed

lemma step_shape:
  assumes "shape s"
  shows "\<exists>s'. step s ev = Inr s' \<and> shape s'"
proof (cases ev)
  case (Connect ws)
  with assms show ?thesis by (simp add: register_client_enter_def shape_def)
next
  case (Closed ws)
  with assms show ?thesis
    by (simp add: register_client_exit_def set_remove_def shape_def)
next
  case (Tick e)
  from broadcast_iteration_shape [OF assms, of e] Tick assms show ?thesis
    by auto
qed

lemma run_shape:
  assumes "shape s"
  shows "\<exists>s'. run s evs = Inr s' \<and> shape s'"
  using assms
proof (induction evs arbitrary: s)
  case Nil
  then show ?case by simp
next
  case (Cons ev evs)
  from step_shape [OF Cons.prems, of ev] obtain s1 where
    s1: "step s ev = Inr s1" "shape s1" by blast
  from Cons.IH [OF s1(2)] s1(1) show ?case by simp
qed

lemma run_append:
  "run s (evs @ evs') = (case run s evs of Inl x \<Rightarrow> Inl x | Inr s' \<Rightarrow> run s' evs')"
  by (induction evs arbitrary: s) (simp_all split: sum.splits)

lemma reachable_shape:
  assumes "run init_dashboard evs = Inr s"
  shows "shape s"
  using run_shape [OF shape_init, of evs] assms by auto

subsection \<open>Invariants of the event loop\<close>

lemma generate_live_data_history:
  assumes "shape s" and "generate_live_data s e = Inr s'"
    and "length (live_trades s) \<le> 100"
  shows "length (live_trades s') \<le> 100"
proof -
  from assms(1) obtain oe tv al sr acs cf rs ms pu where
    m: "metrics s =
            [ (''orders_executed'', PyInt oe), (''total_volume'', PyFloat tv),
              (''avg_latency_us'', PyFloat al), (''success_rate'', PyFloat sr),
              (''active_strategies'', PyInt acs), (''ai_confidence'', PyFloat cf),
              (''risk_score'', PyFloat rs), (''memecoin_scanned'', PyInt ms),
              (''profits_usd'', PyFloat pu) ]"
    and t: "tokens s = tokens init_dashboard"
    unfolding shape_def metrics_shape_def by blast
  from assms(2,3) show ?thesis
    unfolding generate_live_data_explicit [OF m t]
    by (auto simp: length_append_trade)
qed

lemma step_history:
  assumes "shape s" and "step s ev = Inr s'" and "length (live_trades s) \<le> 100"
  shows "length (live_trades s') \<le> 100"
proof (cases ev)
  case (Connect ws)
  with assms show ?thesis by (auto simp: register_client_enter_def)
next
  case (Closed ws)
  with assms show ?thesis by (auto simp: register_client_exit_def set_remove_def)
next
  case (Tick e)
  show ?thesis
  proof (cases "running s")
    case True
    with Tick assms(2) obtain out where b: "broadcast_iteration s e = Inr (s', out)"
      by (auto split: sum.splits)
    from broadcast_iteration_cases [OF b] assms(3)
      generate_live_data_history [OF assms(1) _ assms(3), of e s']
    show ?thesis by auto
  next
    case False
    with Tick assms show ?thesis by simp
  qed
qed

lemma run_history:
  assumes "shape s" and "run s evs = Inr s'" and "length (live_trades s) \<le> 100"
  shows "length (live_trades s') \<le> 100"
  using assms
proof (induction evs arbitrary: s)
  case Nil
  then show ?case by simp
next
  case (Cons ev evs)
  from step_shape [OF Cons.prems(1), of ev] obtain s1 where
    s1: "step s ev = Inr s1" "shape s1" by blast
  from step_history [OF Cons.prems(1) s1(1) Cons.prems(3)]
  have h: "length (live_trades s1) \<le> 100" .
  from Cons.prems(2) s1(1) have "run s1 evs = Inr s'" by simp
  from Cons.IH [OF s1(2) this h] show ?case .
qed

lemma generate_live_data_ranges:
  assumes "shape s" and "draws_ok e" and "generate_live_data s e = Inr s'"
  shows "float_between (metrics s') ''ai_confidence'' 0.75 1 \<and>
         float_between (metrics s') ''risk_score'' 0.05 0.25"
proof -
  from assms(1) obtain oe tv al sr acs cf rs ms pu where
    m: "metrics s =
            [ (''orders_executed'', PyInt oe), (''total_volume'', PyFloat tv),
              (''avg_latency_us'', PyFloat al), (''success_rate'', PyFloat sr),
              (''active_strategies'', PyInt acs), (''ai_confidence'', PyFloat cf),
              (''risk_score'', PyFloat rs), (''memecoin_scanned'', PyInt ms),
              (''profits_usd'', PyFloat pu) ]"
    and t: "tokens s = tokens init_dashboard"
    unfolding shape_def metrics_shape_def by blast
  from assms(2) have u: "unit_draw (u_confidence e)" "unit_draw (u_risk e)"
    by (simp_all add: draws_ok_def)
  have c: "0 \<le> uniform 0 0.25 (u_confidence e) \<and> uniform 0 0.25 (u_confidence e) \<le> 0.25"
    using uniform_bounds [of 0 "0.25", OF _ u(1)] by simp
  have r: "0.05 \<le> uniform 0.05 0.25 (u_risk e) \<and> uniform 0.05 0.25 (u_risk e) \<le> 0.25"
    using uniform_bounds [of "0.05" "0.25", OF _ u(2)] by simp
  from assms(3) have s': "metrics s' =
            [ (''orders_executed'', PyInt (oe + randint 1 5 (k_orders e))),
              (''total_volume'', PyFloat (tv + uniform 1000 50000 (u_volume e))),
              (''avg_latency_us'', PyFloat (uniform 50 150 (u_latency e))),
              (''success_rate'', PyFloat sr),
              (''active_strategies'', PyInt acs),
              (''ai_confidence'', PyFloat (0.75 + uniform 0 0.25 (u_confidence e))),
              (''risk_score'', PyFloat (uniform 0.05 0.25 (u_risk e))),
              (''memecoin_scanned'', PyInt (ms + randint 0 3 (k_scanned e))),
              (''profits_usd'', PyFloat (pu + uniform (- 100) 500 (u_profit e))) ]"
    unfolding generate_live_data_explicit [OF m t] by auto
  from c r show ?thesis
    unfolding s' by (simp add: float_between_def dict_get_def)
qed

lemma step_ranges:
  assumes "shape s"
    and "float_between (metrics s) ''ai_confidence'' 0.75 1"
    and "float_between (metrics s) ''risk_score'' 0.05 0.25"
    and "\<forall>e \<in> set (ticks [ev]). draws_ok e"
    and "step s ev = Inr s'"
  shows "float_between (metrics s') ''ai_confidence'' 0.75 1 \<and>
         float_between (metrics s') ''risk_score'' 0.05 0.25"
proof (cases ev)
  case (Connect ws)
  with assms show ?thesis by (auto simp: register_client_enter_def)
next
  case (Closed ws)
  with assms show ?thesis
    by (auto simp: register_client_exit_def set_remove_def)
next
  case (Tick e)
  with assms(4) have d: "draws_ok e" by simp
  show ?thesis
  proof (cases "running s")
    case True
    with Tick assms(5) obtain out where b: "broadcast_iteration s e = Inr (s', out)"
      by (auto split: sum.splits)
    from broadcast_iteration_cases [OF b] show ?thesis
    proof
      assume "clients s = {} \<and> s' = s"
      with assms(2,3) show ?thesis by simp
    next
      assume "clients s \<noteq> {} \<and> generate_live_data s e = Inr s'"
      with generate_live_data_ranges [OF assms(1) d] show ?thesis by simp
    qed
  next
    case False
    with Tick assms show ?thesis by simp
  qed
qed

lemma ticks_Cons: "set (ticks (ev # evs)) = set (ticks [ev]) \<union> set (ticks evs)"
  by (cases ev) simp_all

lemma run_ranges:
  assumes "shape s"
    and "float_between (metrics s) ''ai_confidence'' 0.75 1"
    and "float_between (metrics s) ''risk_score'' 0.05 0.25"
    and "\<forall>e \<in> set (ticks evs). draws_ok e"
  shows "\<exists>s'. run s evs = Inr s' \<and>
           float_between (metrics s') ''ai_confidence'' 0.75 1 \<and>
           float_between (metrics s') ''risk_score'' 0.05 0.25"
  using assms
proof (induction evs arbitrary: s)
  case Nil
  then show ?case by simp
next
  case (Cons ev evs)
  from step_shape [OF Cons.prems(1), of ev] obtain s1 where
    s1: "step s ev = Inr s1" "shape s1" by blast
  from Cons.prems(4) have d1: "\<forall>e \<in> set (ticks [ev]). draws_ok e"
    and d2: "\<forall>e \<in> set (ticks evs). draws_ok e"
    by (simp_all add: ticks_Cons [of ev evs])
  from step_ranges [OF Cons.prems(1,2,3) d1 s1(1)]
  have r: "float_between (metrics s1) ''ai_confidence'' 0.75 1"
    "float_between (metrics s1) ''risk_score'' 0.05 0.25" by simp_all
  from Cons.IH [OF s1(2) r d2] s1(1) show ?case by simp
qed

subsection \<open>Handlers resumed during the await\<close>



lemma broadcast_pass_no_resume: "broadcast_pass s e [] = broadcast_iteration s e"
  by (auto simp: broadcast_pass_def broadcast_iteration_def Let_def split: sum.splits)








subsection \<open>The sample inputs, evaluated\<close>

lemma run_one_client: "run init_dashboard [Connect 1] = Inr one_client"
  by (simp add: one_client_def)

lemma clients_one_client: "clients one_client = {1}"
  by (simp add: one_client_def register_client_enter_def init_dashboard_def)

lemma clients_two_clients: "clients two_clients = {1, 2}"
  by (auto simp: two_clients_def register_client_enter_def init_dashboard_def)

lemma run_two_clients: "run init_dashboard [Connect 1, Connect 2] = Inr two_clients"
  by (simp add: two_clients_def)

lemma metrics_one_client:
  "metrics one_client =
     [ (''orders_executed'', PyInt 0), (''total_volume'', PyFloat 0),
       (''avg_latency_us'', PyFloat 0), (''success_rate'', PyFloat 99.8),
       (''active_strategies'', PyInt 12), (''ai_confidence'', PyFloat 0.85),
       (''risk_score'', PyFloat 0.15), (''memecoin_scanned'', PyInt 0),
       (''profits_usd'', PyFloat 0) ]"
  by (simp add: one_client_def register_client_enter_def init_dashboard_def)

lemma one_client_fields:
  "tokens one_client = tokens init_dashboard" "live_trades one_client = []"
  by (simp_all add: one_client_def register_client_enter_def init_dashboard_def)

lemma env_trade_values:
  "py_str (py_int (time_time env_trade * 1000)) = ''1700000000123''"
  "py_round (uniform 1000 25000 (u_amount env_trade)) 2 = 3962.94"
  "py_round (uniform 0.001 100000 (u_price env_trade)) 6 = 50000.0005"
  "py_round (uniform 45 200 (u_trade_latency env_trade)) 1 = 91.5"
  "randint 1 5 (k_orders env_trade) = 3"
  "uniform 1000 50000 (u_volume env_trade) = 25500"
  "uniform 50 150 (u_latency env_trade) = 75"
  "0.75 + uniform 0 0.25 (u_confidence env_trade) = 0.875"
  "uniform 0.05 0.25 (u_risk env_trade) = 0.15"
  "randint 0 3 (k_scanned env_trade) = 3"
  "uniform (- 100) 500 (u_profit env_trade) = - 40"
  "u_trade env_trade = 0.9"
  "trade_now env_trade = ''2023-11-14T22:13:20.123400''"
  "data_now env_trade = ''2023-11-14T22:13:20.123500''"
  "tokens init_dashboard ! k_token env_trade = ''PEPE''"
  "[''BUY'', ''SELL''] ! k_side env_trade = ''SELL''"
  "[''AI_SIGNAL'', ''ARBITRAGE'', ''MOMENTUM'', ''SENTIMENT''] ! k_source env_trade = ''MOMENTUM''"
  "[''RAYDIUM'', ''ORCA'', ''JUPITER'', ''UNISWAP''] ! k_exchange env_trade = ''RAYDIUM''"
  by (simp_all add: env_trade_def randint_def uniform_def py_int_def py_str_def str_nat.simps
        digit_char_def py_round_def round_half_even_def Let_def init_dashboard_def)

lemma generate_one_client_env_trade:
  "generate_live_data one_client env_trade =
     Inr (one_client
       \<lparr> metrics :=
           [ (''orders_executed'', PyInt 3), (''total_volume'', PyFloat 25500),
             (''avg_latency_us'', PyFloat 75), (''success_rate'', PyFloat 99.8),
             (''active_strategies'', PyInt 12), (''ai_confidence'', PyFloat 0.875),
             (''risk_score'', PyFloat 0.15), (''memecoin_scanned'', PyInt 3),
             (''profits_usd'', PyFloat (- 40)) ],
         live_trades :=
           [ PyDict
               [ (''id'', PyStr ''T1700000000123''),
                 (''timestamp'', PyStr ''2023-11-14T22:13:20.123400''),
                 (''token'', PyStr ''PEPE''),
                 (''side'', PyStr ''SELL''),
                 (''amount_usd'', PyFloat 3962.94),
                 (''price'', PyFloat 50000.0005),
                 (''latency_us'', PyFloat 91.5),
                 (''status'', PyStr ''EXECUTED''),
                 (''source'', PyStr ''MOMENTUM''),
                 (''exchange'', PyStr ''RAYDIUM'') ] ] \<rparr>)"
  unfolding generate_live_data_explicit [OF metrics_one_client one_client_fields(1)]
    env_trade_values one_client_fields(2)
  by (simp add: append_trade_def)

lemma run_one_client_env_trade:
  "\<exists>s. run init_dashboard [Connect 1, Tick env_trade] = Inr s \<and> length (live_trades s) = 1"
proof -
  have sh: "shape one_client" using reachable_shape [OF run_one_client] .
  have ne: "clients one_client \<noteq> {}" by (simp add: clients_one_client)
  have r: "running one_client"
    by (simp add: one_client_def register_client_enter_def init_dashboard_def)
  from broadcast_iteration_clients [OF sh ne, of env_trade] obtain s' out where
    g: "generate_live_data one_client env_trade = Inr s'"
    and b: "broadcast_iteration one_client env_trade = Inr (s', out)"
    by fastforce
  from g have l: "length (live_trades s') = 1"
    unfolding generate_one_client_env_trade by auto
  from b r have st: "step one_client (Tick env_trade) = Inr s'" by simp
  have "run init_dashboard ([Connect 1] @ [Tick env_trade]) = Inr s'"
    unfolding run_append run_one_client using st by simp
  with l show ?thesis by auto
qed

section \<open>The claims\<close>

subsection \<open>The update policy\<close>

text \<open>
  C1. From any reachable state, with every raw draw inside the random module's contract,
  \<^verbatim>\<open>generate_live_data\<close> returns normally and changes the object in two
  fields only. In the metrics dict, \<open>orders_executed\<close> grows by an integer in [1, 5],
  \<open>total_volume\<close> grows by a float in [1000, 50000], \<open>avg_latency_us\<close> is
  replaced by a float in [50, 150], \<open>ai_confidence\<close> by 0.75 plus a float in [0, 0.25],
  \<open>risk_score\<close> by a float in [0.05, 0.25], \<open>memecoin_scanned\<close> grows by an
  integer in [0, 3], \<open>profits_usd\<close> changes by a float in [-100, 500], and
  \<open>success_rate\<close> and \<open>active_strategies\<close> keep their values. The trade
  history gets exactly one new trade when the draw of \<^verbatim>\<open>random()\<close> is above
  0.7, that is, lies in the interval (0.7, 1) of length 0.3 of the unit interval, and is
  left alone otherwise. The trade's amount is a float in [1000, 25000] rounded to 2
  places, its price a float in [0.001, 100000] rounded to 6 places, its latency a float
  in [45, 200] rounded to 1 place (each rounded value is a multiple of the decimal unit
  within half a unit of the draw), its token, side, source and exchange come from their
  enumerated sets, and its status is EXECUTED. Uniformity is stated on the raw draws:
  each float is the image of the raw draw under an affine bijection from [0, 1) onto its
  range, each integer and each chosen element the image of the raw index under a
  bijection onto its range, so a value is as uniform on its range as the raw draw is on
  its own. No probability measure is part of this development.
\<close>

theorem update_policy:
  assumes "run init_dashboard evs = Inr s" and "draws_ok e"
  shows "\<exists>oe tv al sr acs cf rs ms pu.
     metrics s =
       [ (''orders_executed'', PyInt oe), (''total_volume'', PyFloat tv),
         (''avg_latency_us'', PyFloat al), (''success_rate'', PyFloat sr),
         (''active_strategies'', PyInt acs), (''ai_confidence'', PyFloat cf),
         (''risk_score'', PyFloat rs), (''memecoin_scanned'', PyInt ms),
         (''profits_usd'', PyFloat pu) ] \<and>
     generate_live_data s e =
       Inr (s\<lparr> metrics :=
              [ (''orders_executed'', PyInt (oe + randint 1 5 (k_orders e))),
                (''total_volume'', PyFloat (tv + uniform 1000 50000 (u_volume e))),
                (''avg_latency_us'', PyFloat (uniform 50 150 (u_latency e))),
                (''success_rate'', PyFloat sr),
                (''active_strategies'', PyInt acs),
                (''ai_confidence'', PyFloat (0.75 + uniform 0 0.25 (u_confidence e))),
                (''risk_score'', PyFloat (uniform 0.05 0.25 (u_risk e))),
                (''memecoin_scanned'', PyInt (ms + randint 0 3 (k_scanned e))),
                (''profits_usd'', PyFloat (pu + uniform (- 100) 500 (u_profit e))) ],
            live_trades :=
              (if 0.7 < u_trade e then
                 append_trade (live_trades s)
                   (PyDict
                     [ (''id'', PyStr (CHR ''T'' # py_str (py_int (time_time e * 1000)))),
                       (''timestamp'', PyStr (trade_now e)),
                       (''token'', PyStr (tokens s ! k_token e)),
                       (''side'', PyStr ([''BUY'', ''SELL''] ! k_side e)),
                       (''amount_usd'', PyFloat (py_round (uniform 1000 25000 (u_amount e)) 2)),
                       (''price'', PyFloat (py_round (uniform 0.001 100000 (u_price e)) 6)),
                       (''latency_us'',
                          PyFloat (py_round (uniform 45 200 (u_trade_latency e)) 1)),
                       (''status'', PyStr ''EXECUTED''),
                       (''source'',
                          PyStr ([''AI_SIGNAL'', ''ARBITRAGE'', ''MOMENTUM'', ''SENTIMENT'']
                                   ! k_source e)),
                       (''exchange'',
                          PyStr ([''RAYDIUM'', ''ORCA'', ''JUPITER'', ''UNISWAP'']
                                   ! k_exchange e)) ])
               else live_trades s) \<rparr>) \<and>
     randint 1 5 (k_orders e) \<in> {1..5} \<and>
     uniform 1000 50000 (u_volume e) \<in> {1000..50000} \<and>
     uniform 50 150 (u_latency e) \<in> {50..150} \<and>
     uniform 0 0.25 (u_confidence e) \<in> {0..0.25} \<and>
     uniform 0.05 0.25 (u_risk e) \<in> {0.05..0.25} \<and>
     randint 0 3 (k_scanned e) \<in> {0..3} \<and>
     uniform (- 100) 500 (u_profit e) \<in> {- 100..500} \<and>
     (0.7 < u_trade e) = (u_trade e \<in> {0.7<..<1}) \<and>
     uniform 1000 25000 (u_amount e) \<in> {1000..25000} \<and>
     uniform 0.001 100000 (u_price e) \<in> {0.001..100000} \<and>
     uniform 45 200 (u_trade_latency e) \<in> {45..200} \<and>
     (\<exists>n::int. py_round (uniform 1000 25000 (u_amount e)) 2 = of_int n / 10 ^ 2) \<and>
     \<bar>py_round (uniform 1000 25000 (u_amount e)) 2 - uniform 1000 25000 (u_amount e)\<bar>
       \<le> 1 / (2 * 10 ^ 2) \<and>
     (\<exists>n::int. py_round (uniform 0.001 100000 (u_price e)) 6 = of_int n / 10 ^ 6) \<and>
     \<bar>py_round (uniform 0.001 100000 (u_price e)) 6 - uniform 0.001 100000 (u_price e)\<bar>
       \<le> 1 / (2 * 10 ^ 6) \<and>
     (\<exists>n::int. py_round (uniform 45 200 (u_trade_latency e)) 1 = of_int n / 10 ^ 1) \<and>
     \<bar>py_round (uniform 45 200 (u_trade_latency e)) 1 - uniform 45 200 (u_trade_latency e)\<bar>
       \<le> 1 / (2 * 10 ^ 1) \<and>
     bij_betw (randint 1 5) {..<5} {1..5} \<and>
     bij_betw (uniform 1000 50000) {0..<1} {1000..<50000} \<and>
     bij_betw (uniform 50 150) {0..<1} {50..<150} \<and>
     bij_betw (uniform 0 0.25) {0..<1} {0..<0.25} \<and>
     bij_betw (uniform 0.05 0.25) {0..<1} {0.05..<0.25} \<and>
     bij_betw (randint 0 3) {..<4} {0..3} \<and>
     bij_betw (uniform (- 100) 500) {0..<1} {- 100..<500} \<and>
     bij_betw (uniform 1000 25000) {0..<1} {1000..<25000} \<and>
     bij_betw (uniform 0.001 100000) {0..<1} {0.001..<100000} \<and>
     bij_betw (uniform 45 200) {0..<1} {45..<200} \<and>
     tokens s ! k_token e \<in>
       {''BTC'', ''ETH'', ''SOL'', ''PEPE'', ''SHIB'', ''DOGE'', ''BONK'', ''WIF'', ''POPCAT'',
        ''MOODENG''} \<and>
     [''BUY'', ''SELL''] ! k_side e \<in> {''BUY'', ''SELL''} \<and>
     [''AI_SIGNAL'', ''ARBITRAGE'', ''MOMENTUM'', ''SENTIMENT''] ! k_source e \<in>
       {''AI_SIGNAL'', ''ARBITRAGE'', ''MOMENTUM'', ''SENTIMENT''} \<and>
     [''RAYDIUM'', ''ORCA'', ''JUPITER'', ''UNISWAP''] ! k_exchange e \<in>
       {''RAYDIUM'', ''ORCA'', ''JUPITER'', ''UNISWAP''} \<and>
     bij_betw (\<lambda>k. tokens s ! k) {..<10}
       {''BTC'', ''ETH'', ''SOL'', ''PEPE'', ''SHIB'', ''DOGE'', ''BONK'', ''WIF'', ''POPCAT'',
        ''MOODENG''} \<and>
     bij_betw (\<lambda>k. [''BUY'', ''SELL''] ! k) {..<2} {''BUY'', ''SELL''} \<and>
     bij_betw (\<lambda>k. [''AI_SIGNAL'', ''ARBITRAGE'', ''MOMENTUM'', ''SENTIMENT''] ! k)
       {..<4} {''AI_SIGNAL'', ''ARBITRAGE'', ''MOMENTUM'', ''SENTIMENT''} \<and>
     bij_betw (\<lambda>k. [''RAYDIUM'', ''ORCA'', ''JUPITER'', ''UNISWAP''] ! k)
       {..<4} {''RAYDIUM'', ''ORCA'', ''JUPITER'', ''UNISWAP''}"
proof -
  from reachable_shape [OF assms(1)] obtain oe tv al sr acs cf rs ms pu where
    m: "metrics s =
            [ (''orders_executed'', PyInt oe), (''total_volume'', PyFloat tv),
              (''avg_latency_us'', PyFloat al), (''success_rate'', PyFloat sr),
              (''active_strategies'', PyInt acs), (''ai_confidence'', PyFloat cf),
              (''risk_score'', PyFloat rs), (''memecoin_scanned'', PyInt ms),
              (''profits_usd'', PyFloat pu) ]"
    and t: "tokens s = tokens init_dashboard"
    unfolding shape_def metrics_shape_def by blast
  note g = generate_live_data_explicit [OF m t, of e, folded t]
  from assms(2) have k: "k_orders e < 5" "k_scanned e < 4" "k_token e < 10" "k_side e < 2"
      "k_source e < 4" "k_exchange e < 4"
    and u: "unit_draw (u_volume e)" "unit_draw (u_latency e)" "unit_draw (u_confidence e)"
      "unit_draw (u_risk e)" "unit_draw (u_profit e)" "unit_draw (u_trade e)"
      "unit_draw (u_amount e)" "unit_draw (u_price e)" "unit_draw (u_trade_latency e)"
    by (simp_all add: draws_ok_def)
  have i1: "randint 1 5 (k_orders e) \<in> {1..5}" using k(1) by (simp add: randint_def)
  have i2: "randint 0 3 (k_scanned e) \<in> {0..3}" using k(2) by (simp add: randint_def)
  have f1: "uniform 1000 50000 (u_volume e) \<in> {1000..50000}"
    using uniform_bounds [of 1000 50000, OF _ u(1)] by simp
  have f2: "uniform 50 150 (u_latency e) \<in> {50..150}"
    using uniform_bounds [of 50 150, OF _ u(2)] by simp
  have f3: "uniform 0 0.25 (u_confidence e) \<in> {0..0.25}"
    using uniform_bounds [of 0 "0.25", OF _ u(3)] by simp
  have f4: "uniform 0.05 0.25 (u_risk e) \<in> {0.05..0.25}"
    using uniform_bounds [of "0.05" "0.25", OF _ u(4)] by simp
  have f5: "uniform (- 100) 500 (u_profit e) \<in> {- 100..500}"
    using uniform_bounds [of "- 100" 500, OF _ u(5)] by simp
  have f6: "(0.7 < u_trade e) = (u_trade e \<in> {0.7<..<1})"
    using u(6) by (simp add: unit_draw_def)
  have f7: "uniform 1000 25000 (u_amount e) \<in> {1000..25000}"
    using uniform_bounds [of 1000 25000, OF _ u(7)] by simp
  have f8: "uniform 0.001 100000 (u_price e) \<in> {0.001..100000}"
    using uniform_bounds [of "0.001" 100000, OF _ u(8)] by simp
  have f9: "uniform 45 200 (u_trade_latency e) \<in> {45..200}"
    using uniform_bounds [of 45 200, OF _ u(9)] by simp
  have c1: "tokens s ! k_token e \<in>
       {''BTC'', ''ETH'', ''SOL'', ''PEPE'', ''SHIB'', ''DOGE'', ''BONK'', ''WIF'', ''POPCAT'',
        ''MOODENG''}"
    using choice_in_range [of "k_token e" "tokens s"] k(3) unfolding t tokens_init by simp
  have c2: "[''BUY'', ''SELL''] ! k_side e \<in> {''BUY'', ''SELL''}"
    using choice_in_range [of "k_side e" "[''BUY'', ''SELL'']"] k(4) by simp
  have c3: "[''AI_SIGNAL'', ''ARBITRAGE'', ''MOMENTUM'', ''SENTIMENT''] ! k_source e \<in>
       {''AI_SIGNAL'', ''ARBITRAGE'', ''MOMENTUM'', ''SENTIMENT''}"
    using choice_in_range
      [of "k_source e" "[''AI_SIGNAL'', ''ARBITRAGE'', ''MOMENTUM'', ''SENTIMENT'']"] k(5)
    by simp
  have c4: "[''RAYDIUM'', ''ORCA'', ''JUPITER'', ''UNISWAP''] ! k_exchange e \<in>
       {''RAYDIUM'', ''ORCA'', ''JUPITER'', ''UNISWAP''}"
    using choice_in_range
      [of "k_exchange e" "[''RAYDIUM'', ''ORCA'', ''JUPITER'', ''UNISWAP'']"] k(6)
    by simp
  note r = py_round_spec [THEN conjunct2]
  have b1: "bij_betw (randint 1 5) {..<5} {1..5}"
    using randint_bij [of 1 5] by simp
  have b2: "bij_betw (randint 0 3) {..<4} {0..3}"
    using randint_bij [of 0 3] by simp
  have b3: "bij_betw (uniform 1000 50000) {0..<1} {1000..<50000}"
    by (rule uniform_bij) simp
  have b4: "bij_betw (uniform 50 150) {0..<1} {50..<150}"
    by (rule uniform_bij) simp
  have b5: "bij_betw (uniform 0 0.25) {0..<1} {0..<0.25}"
    by (rule uniform_bij) simp
  have b6: "bij_betw (uniform 0.05 0.25) {0..<1} {0.05..<0.25}"
    by (rule uniform_bij) simp
  have b7: "bij_betw (uniform (- 100) 500) {0..<1} {- 100..<500}"
    by (rule uniform_bij) simp
  have b8: "bij_betw (uniform 1000 25000) {0..<1} {1000..<25000}"
    by (rule uniform_bij) simp
  have b9: "bij_betw (uniform 0.001 100000) {0..<1} {0.001..<100000}"
    by (rule uniform_bij) simp
  have b10: "bij_betw (uniform 45 200) {0..<1} {45..<200}"
    by (rule uniform_bij) simp
  have b11: "bij_betw (\<lambda>k. tokens s ! k) {..<10}
       {''BTC'', ''ETH'', ''SOL'', ''PEPE'', ''SHIB'', ''DOGE'', ''BONK'', ''WIF'', ''POPCAT'',
        ''MOODENG''}"
    unfolding t tokens_init by (rule bij_betw_nth) simp_all
  have b12: "bij_betw (\<lambda>k. [''BUY'', ''SELL''] ! k) {..<2} {''BUY'', ''SELL''}"
    by (rule bij_betw_nth) simp_all
  have b13: "bij_betw (\<lambda>k. [''AI_SIGNAL'', ''ARBITRAGE'', ''MOMENTUM'', ''SENTIMENT''] ! k)
       {..<4} {''AI_SIGNAL'', ''ARBITRAGE'', ''MOMENTUM'', ''SENTIMENT''}"
    by (rule bij_betw_nth) simp_all
  have b14: "bij_betw (\<lambda>k. [''RAYDIUM'', ''ORCA'', ''JUPITER'', ''UNISWAP''] ! k)
       {..<4} {''RAYDIUM'', ''ORCA'', ''JUPITER'', ''UNISWAP''}"
    by (rule bij_betw_nth) simp_all
  note b = b1 b2 b3 b4 b5 b6 b7 b8 b9 b10 b11 b12 b13 b14
  show ?thesis
    by (intro exI conjI)
      (rule m g i1 i2 f1 f2 f3 f4 f5 f6 f7 f8 f9 c1 c2 c3 c4 r py_round_def b)+
qed

theorem update_policy_witness:
  "run init_dashboard [Connect 1] = Inr one_client \<and> draws_ok env_trade \<and>
   generate_live_data one_client env_trade =
     Inr (one_client
       \<lparr> metrics :=
           [ (''orders_executed'', PyInt 3), (''total_volume'', PyFloat 25500),
             (''avg_latency_us'', PyFloat 75), (''success_rate'', PyFloat 99.8),
             (''active_strategies'', PyInt 12), (''ai_confidence'', PyFloat 0.875),
             (''risk_score'', PyFloat 0.15), (''memecoin_scanned'', PyInt 3),
             (''profits_usd'', PyFloat (- 40)) ],
         live_trades :=
           [ PyDict
               [ (''id'', PyStr ''T1700000000123''),
                 (''timestamp'', PyStr ''2023-11-14T22:13:20.123400''),
                 (''token'', PyStr ''PEPE''),
                 (''side'', PyStr ''SELL''),
                 (''amount_usd'', PyFloat 3962.94),
                 (''price'', PyFloat 50000.0005),
                 (''latency_us'', PyFloat 91.5),
                 (''status'', PyStr ''EXECUTED''),
                 (''source'', PyStr ''MOMENTUM''),
                 (''exchange'', PyStr ''RAYDIUM'') ] ] \<rparr>)"
proof -
  have d: "draws_ok env_trade"
    by (simp add: draws_ok_def unit_draw_def env_trade_def)
  from update_policy [OF run_one_client d] obtain oe tv al sr acs cf rs ms pu where
    m: "metrics one_client =
       [ (''orders_executed'', PyInt oe), (''total_volume'', PyFloat tv),
         (''avg_latency_us'', PyFloat al), (''success_rate'', PyFloat sr),
         (''active_strategies'', PyInt acs), (''ai_confidence'', PyFloat cf),
         (''risk_score'', PyFloat rs), (''memecoin_scanned'', PyInt ms),
         (''profits_usd'', PyFloat pu) ]"
    and g: "generate_live_data one_client env_trade =
       Inr (one_client\<lparr> metrics :=
              [ (''orders_executed'', PyInt (oe + randint 1 5 (k_orders env_trade))),
                (''total_volume'', PyFloat (tv + uniform 1000 50000 (u_volume env_trade))),
                (''avg_latency_us'', PyFloat (uniform 50 150 (u_latency env_trade))),
                (''success_rate'', PyFloat sr),
                (''active_strategies'', PyInt acs),
                (''ai_confidence'', PyFloat (0.75 + uniform 0 0.25 (u_confidence env_trade))),
                (''risk_score'', PyFloat (uniform 0.05 0.25 (u_risk env_trade))),
                (''memecoin_scanned'', PyInt (ms + randint 0 3 (k_scanned env_trade))),
                (''profits_usd'', PyFloat (pu + uniform (- 100) 500 (u_profit env_trade))) ],
            live_trades :=
              (if 0.7 < u_trade env_trade then
                 append_trade (live_trades one_client)
                   (PyDict
                     [ (''id'', PyStr (CHR ''T'' # py_str (py_int (time_time env_trade * 1000)))),
                       (''timestamp'', PyStr (trade_now env_trade)),
                       (''token'', PyStr (tokens one_client ! k_token env_trade)),
                       (''side'', PyStr ([''BUY'', ''SELL''] ! k_side env_trade)),
                       (''amount_usd'', PyFloat (py_round (uniform 1000 25000 (u_amount env_trade)) 2)),
                       (''price'', PyFloat (py_round (uniform 0.001 100000 (u_price env_trade)) 6)),
                       (''latency_us'',
                          PyFloat (py_round (uniform 45 200 (u_trade_latency env_trade)) 1)),
                       (''status'', PyStr ''EXECUTED''),
                       (''source'',
                          PyStr ([''AI_SIGNAL'', ''ARBITRAGE'', ''MOMENTUM'', ''SENTIMENT'']
                                   ! k_source env_trade)),
                       (''exchange'',
                          PyStr ([''RAYDIUM'', ''ORCA'', ''JUPITER'', ''UNISWAP'']
                                   ! k_exchange env_trade)) ])
               else live_trades one_client) \<rparr>)"
    by blast
  from m have v: "oe = 0" "tv = 0" "sr = 99.8" "acs = 12" "ms = 0" "pu = 0"
    by (simp_all add: metrics_one_client)
  have ap: "append_trade [] t = [t]" for t by (simp add: append_trade_def)
  from g show ?thesis
    unfolding v one_client_fields env_trade_values ap using run_one_client d by simp
qed

subsection \<open>Capacity of the history\<close>

text \<open>
  C2. Whatever the history was, after \<^verbatim>\<open>generate_live_data\<close>'s append and cut
  it holds at most 100 trades, so the bound holds after each insertion of any sequence of
  insertions, and in every reachable state. An insertion into a history of exactly 100
  trades drops the oldest one (the head) and nothing else: the other 99 keep their order
  and the new trade is last. Below capacity nothing is dropped.
\<close>

theorem history_bounded_fifo:
  "length (append_trade h t) \<le> 100 \<and>
   (length h = 100 \<longrightarrow> append_trade h t = tl h @ [t]) \<and>
   (length h < 100 \<longrightarrow> append_trade h t = h @ [t]) \<and>
   length (foldl append_trade [] ts) \<le> 100 \<and>
   (run init_dashboard evs = Inr s \<longrightarrow> length (live_trades s) \<le> 100)"
proof -
  have "length (live_trades s) \<le> 100" if "run init_dashboard evs = Inr s"
    using run_history [OF shape_init that] by (simp add: init_dashboard_def)
  then show ?thesis
    by (simp add: length_append_trade append_trade_full append_trade_below
        length_foldl_append_trade)
qed

theorem history_bounded_fifo_witness:
  "length (map PyInt [0..<100]) = 100 \<and>
   append_trade (map PyInt [0..<100]) (PyInt 100) = map PyInt [1..<101] \<and>
   length [PyInt 0, PyInt 1] < 100 \<and>
   append_trade [PyInt 0, PyInt 1] (PyInt 2) = [PyInt 0, PyInt 1, PyInt 2] \<and>
   (\<exists>s. run init_dashboard [Connect 1, Tick env_trade] = Inr s \<and>
        length (live_trades s) = 1 \<and> length (live_trades s) \<le> 100)"
proof -
  from run_one_client_env_trade obtain s where
    r: "run init_dashboard [Connect 1, Tick env_trade] = Inr s"
    and l: "length (live_trades s) = 1"
    by blast
  note a = history_bounded_fifo [of "map PyInt [0..<100]" "PyInt 100" "[]"
      "[Connect 1, Tick env_trade]" s]
  note b = history_bounded_fifo [of "[PyInt 0, PyInt 1]" "PyInt 2" "[]" "[]" init_dashboard]
  have "append_trade (map PyInt [0..<100]) (PyInt 100) = map PyInt [1..<101]"
    using a by (simp add: upt_rec)
  moreover have "append_trade [PyInt 0, PyInt 1] (PyInt 2) = [PyInt 0, PyInt 1, PyInt 2]"
    using b by simp
  moreover from a r have "length (live_trades s) \<le> 100" by blast
  ultimately show ?thesis using r l by auto
qed

subsection \<open>A subscriber whose send fails\<close>



subsection \<open>Failing sends do not stop the others\<close>

text \<open>
  C4. From any reachable state with at least one subscriber, whichever websockets raise on
  send, the pass returns normally (no exception reaches the caller): the message of this
  pass is sent to every subscriber, every send that does not raise goes through, and
  every send that raises is returned by gather as a result.
\<close>

theorem delivery_failures_isolated:
  assumes "run init_dashboard evs = Inr s" and "clients s \<noteq> {}"
  shows "\<exists>s' out. broadcast_iteration s e = Inr (s', out) \<and>
           (\<forall>ws \<in> clients s. (ws, build_data s' e) \<in> sent out) \<and>
           (\<forall>ws \<in> clients s. \<not> send_raises e ws \<longrightarrow> (ws, None) \<in> outcomes out) \<and>
           (\<forall>ws \<in> clients s. send_raises e ws \<longrightarrow> (ws, Some ConnectionClosed) \<in> outcomes out)"
proof -
  from broadcast_iteration_clients [OF reachable_shape [OF assms(1)] assms(2), of e]
  obtain s' where
    b: "broadcast_iteration s e =
      Inr (s', \<lparr> dumps_calls = card (clients s),
                 sent = (\<lambda>ws. (ws, build_data s' e)) ` clients s,
                 outcomes = (\<lambda>ws. (ws, if send_raises e ws then Some ConnectionClosed else None))
                              ` clients s \<rparr>)"
    by blast
  show ?thesis unfolding b by (auto intro!: rev_image_eqI)
qed

theorem delivery_failures_isolated_witness:
  "run init_dashboard [Connect 1, Connect 2] = Inr two_clients \<and>
   clients two_clients \<noteq> {} \<and>
   (\<exists>s' out. broadcast_iteration two_clients env_trade = Inr (s', out) \<and>
      (1, build_data s' env_trade) \<in> sent out \<and> (1, None) \<in> outcomes out \<and>
      (2, build_data s' env_trade) \<in> sent out \<and> (2, Some ConnectionClosed) \<in> outcomes out)"
proof -
  have ne: "clients two_clients \<noteq> {}" by (simp add: clients_two_clients)
  have f: "\<not> send_raises env_trade 1" "send_raises env_trade 2"
    by (simp_all add: env_trade_def)
  from delivery_failures_isolated [OF run_two_clients ne, of env_trade] f
  show ?thesis
    unfolding clients_two_clients using run_two_clients by fastforce
qed

subsection \<open>The message\<close>

text \<open>
  C5. Every message sent in a pass from a reachable state is the dict with type
  \<open>update\<close>, the timestamp read in that pass, the metrics dict as it is after
  \<^verbatim>\<open>generate_live_data\<close>, holding exactly the nine metric keys, the last 10
  trades of the history in history order (so the most recent is last, and at most 10 of
  them), and the fixed five-entry system status.
\<close>

theorem message_shape:
  assumes "run init_dashboard evs = Inr s"
    and "broadcast_iteration s e = Inr (s', out)"
    and "(ws, msg) \<in> sent out"
  shows "msg =
     PyDict
       [ (''type'', PyStr ''update''),
         (''timestamp'', PyStr (data_now e)),
         (''metrics'', PyDict (metrics s')),
         (''live_trades'', PyList (slice_last 10 (live_trades s'))),
         (''system_status'', PyDict
            [ (''core_engine'', PyStr ''ONLINE''),
              (''ai_system'', PyStr ''PROCESSING''),
              (''execution_engine'', PyStr ''ULTRA_FAST''),
              (''risk_manager'', PyStr ''PROTECTED''),
              (''network'', PyStr ''OPTIMAL'') ]) ] \<and>
     map fst (metrics s') =
       [ ''orders_executed'', ''total_volume'', ''avg_latency_us'', ''success_rate'',
         ''active_strategies'', ''ai_confidence'', ''risk_score'', ''memecoin_scanned'',
         ''profits_usd'' ] \<and>
     length (slice_last 10 (live_trades s')) \<le> 10 \<and>
     take (length (live_trades s') - 10) (live_trades s') @ slice_last 10 (live_trades s') =
       live_trades s'"
proof -
  from reachable_shape [OF assms(1)] have sh: "shape s" .
  have ne: "clients s \<noteq> {}"
  proof
    assume "clients s = {}"
    then have "broadcast_iteration s e = Inr (s, no_output)"
      by (simp add: broadcast_iteration_def)
    with assms(2,3) show False by (auto simp: no_output_def)
  qed
  from broadcast_iteration_clients [OF sh ne, of e] assms(2) have
    s': "shape s'" and snt: "sent out = (\<lambda>ws. (ws, build_data s' e)) ` clients s"
    by auto
  from snt assms(3) have msg: "msg = build_data s' e" by auto
  from s' have keys: "map fst (metrics s') =
       [ ''orders_executed'', ''total_volume'', ''avg_latency_us'', ''success_rate'',
         ''active_strategies'', ''ai_confidence'', ''risk_score'', ''memecoin_scanned'',
         ''profits_usd'' ]"
    unfolding shape_def metrics_shape_def by auto
  have len: "length (slice_last 10 (live_trades s')) \<le> 10"
    by (simp add: length_slice_last)
  have suffix: "take (length (live_trades s') - 10) (live_trades s') @
      slice_last 10 (live_trades s') = live_trades s'"
    by (simp add: slice_last_def)
  from msg keys len suffix show ?thesis by (simp add: build_data_def)
qed

theorem message_shape_witness:
  "run init_dashboard [Connect 1] = Inr one_client \<and>
   (\<exists>s' out. broadcast_iteration one_client env_trade = Inr (s', out) \<and>
      (1, PyDict
       [ (''type'', PyStr ''update''),
         (''timestamp'', PyStr ''2023-11-14T22:13:20.123500''),
         (''metrics'', PyDict
           [ (''orders_executed'', PyInt 3), (''total_volume'', PyFloat 25500),
             (''avg_latency_us'', PyFloat 75), (''success_rate'', PyFloat 99.8),
             (''active_strategies'', PyInt 12), (''ai_confidence'', PyFloat 0.875),
             (''risk_score'', PyFloat 0.15), (''memecoin_scanned'', PyInt 3),
             (''profits_usd'', PyFloat (- 40)) ]),
         (''live_trades'', PyList
           [ PyDict
               [ (''id'', PyStr ''T1700000000123''),
                 (''timestamp'', PyStr ''2023-11-14T22:13:20.123400''),
                 (''token'', PyStr ''PEPE''),
                 (''side'', PyStr ''SELL''),
                 (''amount_usd'', PyFloat 3962.94),
                 (''price'', PyFloat 50000.0005),
                 (''latency_us'', PyFloat 91.5),
                 (''status'', PyStr ''EXECUTED''),
                 (''source'', PyStr ''MOMENTUM''),
                 (''exchange'', PyStr ''RAYDIUM'') ] ]),
         (''system_status'', PyDict
            [ (''core_engine'', PyStr ''ONLINE''),
              (''ai_system'', PyStr ''PROCESSING''),
              (''execution_engine'', PyStr ''ULTRA_FAST''),
              (''risk_manager'', PyStr ''PROTECTED''),
              (''network'', PyStr ''OPTIMAL'') ]) ]) \<in> sent out)"
proof -
  have sh: "shape one_client"
    using reachable_shape [OF run_one_client] .
  have ne: "clients one_client \<noteq> {}" by (simp add: clients_one_client)
  from broadcast_iteration_clients [OF sh ne, of env_trade] obtain s' out where
    g: "generate_live_data one_client env_trade = Inr s'"
    and b: "broadcast_iteration one_client env_trade = Inr (s', out)"
    and snt: "sent out = (\<lambda>ws. (ws, build_data s' env_trade)) ` clients one_client"
    by fastforce
  from snt have mem: "(1, build_data s' env_trade) \<in> sent out"
    by (simp add: clients_one_client)
  note msg = message_shape [OF run_one_client b mem, THEN conjunct1]
  from g have s': "metrics s' =
           [ (''orders_executed'', PyInt 3), (''total_volume'', PyFloat 25500),
             (''avg_latency_us'', PyFloat 75), (''success_rate'', PyFloat 99.8),
             (''active_strategies'', PyInt 12), (''ai_confidence'', PyFloat 0.875),
             (''risk_score'', PyFloat 0.15), (''memecoin_scanned'', PyInt 3),
             (''profits_usd'', PyFloat (- 40)) ]"
     "live_trades s' =
           [ PyDict
               [ (''id'', PyStr ''T1700000000123''),
                 (''timestamp'', PyStr ''2023-11-14T22:13:20.123400''),
                 (''token'', PyStr ''PEPE''),
                 (''side'', PyStr ''SELL''),
                 (''amount_usd'', PyFloat 3962.94),
                 (''price'', PyFloat 50000.0005),
                 (''latency_us'', PyFloat 91.5),
                 (''status'', PyStr ''EXECUTED''),
                 (''source'', PyStr ''MOMENTUM''),
                 (''exchange'', PyStr ''RAYDIUM'') ] ]"
    unfolding generate_one_client_env_trade by auto
  from mem have "(1, PyDict
       [ (''type'', PyStr ''update''),
         (''timestamp'', PyStr (data_now env_trade)),
         (''metrics'', PyDict (metrics s')),
         (''live_trades'', PyList (slice_last 10 (live_trades s'))),
         (''system_status'', PyDict
            [ (''core_engine'', PyStr ''ONLINE''),
              (''ai_system'', PyStr ''PROCESSING''),
              (''execution_engine'', PyStr ''ULTRA_FAST''),
              (''risk_manager'', PyStr ''PROTECTED''),
              (''network'', PyStr ''OPTIMAL'') ]) ]) \<in> sent out"
    unfolding msg .
  then show ?thesis
    unfolding s' env_trade_values using run_one_client b by (auto simp: slice_last_def)
qed

subsection \<open>Monotone counters\<close>

text \<open>
  C6. In every pass of the loop from a reachable state, with draws inside the contract,
  \<open>orders_executed\<close>, \<open>total_volume\<close> and \<open>memecoin_scanned\<close> are after
  the pass at least what they were before it.
\<close>

theorem counters_monotone:
  assumes "run init_dashboard evs = Inr s" and "draws_ok e"
  shows "\<exists>s' out oe oe' tv tv' ms ms'.
           broadcast_iteration s e = Inr (s', out) \<and>
           dict_get (metrics s) ''orders_executed'' = Inr (PyInt oe) \<and>
           dict_get (metrics s') ''orders_executed'' = Inr (PyInt oe') \<and> oe \<le> oe' \<and>
           dict_get (metrics s) ''total_volume'' = Inr (PyFloat tv) \<and>
           dict_get (metrics s') ''total_volume'' = Inr (PyFloat tv') \<and> tv \<le> tv' \<and>
           dict_get (metrics s) ''memecoin_scanned'' = Inr (PyInt ms) \<and>
           dict_get (metrics s') ''memecoin_scanned'' = Inr (PyInt ms') \<and> ms \<le> ms'"
proof -
  from reachable_shape [OF assms(1)] have sh: "shape s" .
  then obtain oe tv al sr acs cf rs ms pu where
    m: "metrics s =
            [ (''orders_executed'', PyInt oe), (''total_volume'', PyFloat tv),
              (''avg_latency_us'', PyFloat al), (''success_rate'', PyFloat sr),
              (''active_strategies'', PyInt acs), (''ai_confidence'', PyFloat cf),
              (''risk_score'', PyFloat rs), (''memecoin_scanned'', PyInt ms),
              (''profits_usd'', PyFloat pu) ]"
    and t: "tokens s = tokens init_dashboard"
    unfolding shape_def metrics_shape_def by blast
  have old: "dict_get (metrics s) ''orders_executed'' = Inr (PyInt oe)"
    "dict_get (metrics s) ''total_volume'' = Inr (PyFloat tv)"
    "dict_get (metrics s) ''memecoin_scanned'' = Inr (PyInt ms)"
    by (simp_all add: m dict_get_def)
  show ?thesis
  proof (cases "clients s = {}")
    case True
    then have "broadcast_iteration s e = Inr (s, no_output)"
      by (simp add: broadcast_iteration_def)
    with old show ?thesis by fastforce
  next
    case False
    from assms(2) have "unit_draw (u_volume e)" by (simp add: draws_ok_def)
    from uniform_bounds [of 1000 50000, OF _ this]
    have v: "0 \<le> uniform 1000 50000 (u_volume e)" by simp
    have k: "0 \<le> randint 1 5 (k_orders e)" "0 \<le> randint 0 3 (k_scanned e)"
      by (simp_all add: randint_def)
    from broadcast_iteration_clients [OF sh False, of e] obtain s' out where
      g: "generate_live_data s e = Inr s'" and b: "broadcast_iteration s e = Inr (s', out)"
      by blast
    from g have new: "dict_get (metrics s') ''orders_executed'' =
          Inr (PyInt (oe + randint 1 5 (k_orders e)))"
      "dict_get (metrics s') ''total_volume'' =
          Inr (PyFloat (tv + uniform 1000 50000 (u_volume e)))"
      "dict_get (metrics s') ''memecoin_scanned'' =
          Inr (PyInt (ms + randint 0 3 (k_scanned e)))"
      unfolding generate_live_data_explicit [OF m t] by (auto simp: dict_get_def)
    have "oe \<le> oe + randint 1 5 (k_orders e)" "tv \<le> tv + uniform 1000 50000 (u_volume e)"
      "ms \<le> ms + randint 0 3 (k_scanned e)"
      using v k by simp_all
    with b old new show ?thesis by blast
  qed
qed

theorem counters_monotone_witness:
  "run init_dashboard [Connect 1] = Inr one_client \<and> draws_ok env_trade \<and>
   (\<exists>s' out.
      broadcast_iteration one_client env_trade = Inr (s', out) \<and>
      dict_get (metrics one_client) ''orders_executed'' = Inr (PyInt 0) \<and>
      dict_get (metrics s') ''orders_executed'' = Inr (PyInt 3) \<and>
      dict_get (metrics one_client) ''total_volume'' = Inr (PyFloat 0) \<and>
      dict_get (metrics s') ''total_volume'' = Inr (PyFloat 25500) \<and>
      dict_get (metrics one_client) ''memecoin_scanned'' = Inr (PyInt 0) \<and>
      dict_get (metrics s') ''memecoin_scanned'' = Inr (PyInt 3))"
proof -
  have d: "draws_ok env_trade"
    by (simp add: draws_ok_def unit_draw_def env_trade_def)
  from counters_monotone [OF run_one_client d] obtain s' out where
    b: "broadcast_iteration one_client env_trade = Inr (s', out)"
    by blast
  have old: "dict_get (metrics one_client) ''orders_executed'' = Inr (PyInt 0)"
      "dict_get (metrics one_client) ''total_volume'' = Inr (PyFloat 0)"
      "dict_get (metrics one_client) ''memecoin_scanned'' = Inr (PyInt 0)"
    by (simp_all add: one_client_def register_client_enter_def init_dashboard_def dict_get_def)
  from b have new: "dict_get (metrics s') ''orders_executed'' = Inr (PyInt 3)"
      "dict_get (metrics s') ''total_volume'' = Inr (PyFloat 25500)"
      "dict_get (metrics s') ''memecoin_scanned'' = Inr (PyInt 3)"
    by (auto simp add: one_client_def init_dashboard_def register_client_enter_def
          broadcast_iteration_def generate_live_data_def dict_iadd_def
          dict_get_def dict_set_def new_trade_def choice_def gather_def Let_def env_trade_def
          uniform_def randint_def)
  from run_one_client d b old new show ?thesis by blast
qed

subsection \<open>Confidence and risk stay in range\<close>

text \<open>
  C7. After any interleaving of connections opening, connections closing and passes of
  the loop from the initial state, the passes drawing inside the contract,
  \<open>ai_confidence\<close> is in [0.75, 1.0] and \<open>risk_score\<close> in [0.05, 0.25]; this
  covers the passes that find no subscriber and regenerate nothing.
\<close>

theorem confidence_risk_in_range:
  assumes "\<forall>e \<in> set (ticks evs). draws_ok e"
  shows "\<exists>s. run init_dashboard evs = Inr s \<and>
           float_between (metrics s) ''ai_confidence'' 0.75 1.0 \<and>
           float_between (metrics s) ''risk_score'' 0.05 0.25"
proof -
  have "float_between (metrics init_dashboard) ''ai_confidence'' 0.75 1"
    and "float_between (metrics init_dashboard) ''risk_score'' 0.05 0.25"
    by (simp_all add: init_dashboard_def float_between_def dict_get_def)
  from run_ranges [OF shape_init this assms] show ?thesis by simp
qed

theorem confidence_risk_in_range_witness:
  "draws_ok env_trade \<and> draws_ok env_quiet \<and>
   (\<exists>s. run init_dashboard [Connect 1, Tick env_trade, Closed 1, Tick env_quiet, Connect 2,
             Tick env_quiet] = Inr s \<and>
        float_between (metrics s) ''ai_confidence'' 0.75 1.0 \<and>
        float_between (metrics s) ''risk_score'' 0.05 0.25 \<and>
        dict_get (metrics s) ''ai_confidence'' = Inr (PyFloat 0.75) \<and>
        dict_get (metrics s) ''risk_score'' = Inr (PyFloat 0.2))"
proof -
  have d: "draws_ok env_trade" "draws_ok env_quiet"
    by (simp_all add: draws_ok_def unit_draw_def env_trade_def env_quiet_def)
  then have "\<forall>e \<in> set (ticks [Connect 1, Tick env_trade, Closed 1, Tick env_quiet, Connect 2,
             Tick env_quiet]). draws_ok e"
    by simp
  from confidence_risk_in_range [OF this] obtain s where
    r: "run init_dashboard [Connect 1, Tick env_trade, Closed 1, Tick env_quiet, Connect 2,
             Tick env_quiet] = Inr s"
    and f: "float_between (metrics s) ''ai_confidence'' 0.75 1.0"
           "float_between (metrics s) ''risk_score'' 0.05 0.25"
    by blast
  have m: "dict_get (metrics s) ''ai_confidence'' = Inr (PyFloat 0.75) \<and>
           dict_get (metrics s) ''risk_score'' = Inr (PyFloat 0.2)"
    using r
    by (auto simp add: init_dashboard_def register_client_enter_def register_client_exit_def
          set_remove_def broadcast_iteration_def generate_live_data_def dict_iadd_def
          dict_get_def dict_set_def new_trade_def choice_def gather_def Let_def env_trade_def
          env_quiet_def uniform_def randint_def no_output_def)
  from d r f m show ?thesis by simp
qed

subsection \<open>A pass with no subscribers\<close>

text \<open>
  C8. With an empty subscriber set, one pass of the broadcast loop returns normally with
  the object as it was (metrics and trade history untouched, nothing generated), having
  called \<^verbatim>\<open>json.dumps\<close> zero times and made no send.
\<close>

theorem tick_without_clients:
  assumes "clients s = {}"
  shows "broadcast_iteration s e = Inr (s, \<lparr> dumps_calls = 0, sent = {}, outcomes = {} \<rparr>)"
  using assms by (simp add: broadcast_iteration_def no_output_def)

theorem tick_without_clients_witness:
  "clients init_dashboard = {} \<and>
   broadcast_iteration init_dashboard env_trade =
     Inr (init_dashboard, \<lparr> dumps_calls = 0, sent = {}, outcomes = {} \<rparr>)"
  using tick_without_clients [of init_dashboard env_trade]
  by (simp add: init_dashboard_def)

subsection \<open>Leaving\<close>

text \<open>
  C9, as the spec states it, fails: the leave of \<^verbatim>\<open>register_client\<close> is
  \<^verbatim>\<open>self.clients.remove(websocket)\<close>, which raises KeyError for a websocket
  that is not in the set, be it one that never joined or one already removed.
\<close>

theorem leave_not_idempotent:
  "register_client_exit init_dashboard 1 = (init_dashboard, Some KeyError) \<and>
   snd (register_client_exit (fst (register_client_exit one_client 1)) 1) = Some KeyError"
  by (simp add: register_client_exit_def set_remove_def init_dashboard_def one_client_def
        register_client_enter_def)

text \<open>
  C9, amended. Leaving removes a websocket that is in the subscriber set, without error;
  for a websocket that is not in the set the set is left unchanged and KeyError is
  raised, so a second leave of the same websocket always raises.
\<close>

theorem leave_removes_or_raises:
  "(ws \<in> clients s \<longrightarrow>
      register_client_exit s ws = (s\<lparr>clients := clients s - {ws}\<rparr>, None)) \<and>
   (ws \<notin> clients s \<longrightarrow> register_client_exit s ws = (s, Some KeyError)) \<and>
   snd (register_client_exit (fst (register_client_exit s ws)) ws) = Some KeyError"
  by (simp add: register_client_exit_def set_remove_def)

theorem leave_removes_or_raises_witness:
  "1 \<in> clients one_client \<and>
   register_client_exit one_client 1 = (one_client\<lparr>clients := {}\<rparr>, None) \<and>
   2 \<notin> clients one_client \<and>
   register_client_exit one_client 2 = (one_client, Some KeyError)"
  using leave_removes_or_raises [of 1 one_client] leave_removes_or_raises [of 2 one_client]
  by (simp add: one_client_def register_client_enter_def init_dashboard_def)

subsection \<open>The initial state\<close>

text \<open>
  C10. After \<^verbatim>\<open>__init__\<close> the trade history is empty and the metrics dict
  holds the nine initial values; the history is within its capacity of 100,
  \<open>ai_confidence\<close> is in [0.75, 1.0] and \<open>risk_score\<close> in [0.05, 0.25].
\<close>

theorem initial_state:
  "live_trades init_dashboard = [] \<and>
   metrics init_dashboard =
     [ (''orders_executed'', PyInt 0), (''total_volume'', PyFloat 0.0),
       (''avg_latency_us'', PyFloat 0.0), (''success_rate'', PyFloat 99.8),
       (''active_strategies'', PyInt 12), (''ai_confidence'', PyFloat 0.85),
       (''risk_score'', PyFloat 0.15), (''memecoin_scanned'', PyInt 0),
       (''profits_usd'', PyFloat 0.0) ] \<and>
   length (live_trades init_dashboard) \<le> 100 \<and>
   float_between (metrics init_dashboard) ''ai_confidence'' 0.75 1.0 \<and>
   float_between (metrics init_dashboard) ''risk_score'' 0.05 0.25"
  by (simp add: init_dashboard_def float_between_def dict_get_def)

end
